theory Spec2Isabelle
  imports Complex_Main "HOL-Library.Word" "HOL-Library.Monad_Syntax" "HOL-Library.AList"
    "HOL-Library.List_Lexorder"
begin

section \<open>JavaScript values as the scoreboard server sees them\<close>

text \<open>
  The server (\<^verbatim>\<open>group-server.js\<close>) keeps its participants in a plain object and
  reads JSON from request bodies and from the scoreboard file. Values are therefore
  dynamically typed. A string is the list of its UTF-16 code units, which is what
  \<^verbatim>\<open>slice\<close> and \<^verbatim>\<open>trim\<close> work on. A number is a finite value, \<^verbatim>\<open>NaN\<close> or one of the
  two infinities; finite values are rationals (every double is one; the sign of zero is
  not kept, as \<^verbatim>\<open>===\<close> does not see it).
\<close>

type_synonym jsstring = "16 word list"

definition lit :: "string \<Rightarrow> jsstring" where
  "lit s = map (\<lambda>c. of_nat (of_char c)) s"

datatype jsnum = Num rat | NaN | PosInfinity | NegInfinity

text \<open>
  \<open>JFunction\<close> and \<open>JObjectPrototype\<close> are the values a lookup on a plain object can
  reach through its prototype: the built-in methods of \<^verbatim>\<open>Object.prototype\<close> and that
  object itself. JSON never carries them.
\<close>

datatype jsval =
    JUndefined
  | JNull
  | JBool bool
  | JNum jsnum
  | JStr jsstring
  | JArr "jsval list"
  | JObj "(jsstring \<times> jsval) list"
  | JFunction jsstring
  | JObjectPrototype

type_synonym obj = "(jsstring \<times> jsval) list"

text \<open>
  What the program takes from its runtime and not from its own code: the conversion of a
  string to a number (\<^verbatim>\<open>Number(s)\<close>), of a number to a string (\<^verbatim>\<open>String(n)\<close>), and the
  collation of the locale \<^verbatim>\<open>'he'\<close>, given by its sort keys (two strings compare as their
  keys do). Every theorem below holds for any choice of the three.
\<close>

record 'k platform =
  stringToNumber :: "jsstring \<Rightarrow> jsnum"
  numberToString :: "jsnum \<Rightarrow> jsstring"
  collationKey :: "jsstring \<Rightarrow> 'k"

subsection \<open>Truthiness, property reads, coercions\<close>

fun nullish :: "jsval \<Rightarrow> bool" where
  "nullish JUndefined = True"
| "nullish JNull = True"
| "nullish _ = False"

fun primitive :: "jsval \<Rightarrow> bool" where
  "primitive (JArr _) = False"
| "primitive (JObj _) = False"
| "primitive (JFunction _) = False"
| "primitive JObjectPrototype = False"
| "primitive _ = True"

fun truthy :: "jsval \<Rightarrow> bool" where
  "truthy JUndefined = False"
| "truthy JNull = False"
| "truthy (JBool b) = b"
| "truthy (JNum n) = (n \<noteq> Num 0 \<and> n \<noteq> NaN)"
| "truthy (JStr s) = (s \<noteq> [])"
| "truthy _ = True"

text \<open>\<^verbatim>\<open>value || fallback\<close>\<close>

definition orElse :: "jsval \<Rightarrow> jsval \<Rightarrow> jsval" where
  "orElse v d = (if truthy v then v else d)"

text \<open>
  Array indices are the canonical decimal strings of the integers below \<open>2^32 - 1\<close>; an
  object lists its properties with these first, in ascending order.
\<close>

definition isDigit :: "16 word \<Rightarrow> bool" where
  "isDigit c = (0x30 \<le> c \<and> c \<le> 0x39)"

definition decimalValue :: "jsstring \<Rightarrow> nat" where
  "decimalValue s = foldl (\<lambda>n c. 10 * n + (unat c - 48)) 0 s"

definition arrayIndex :: "jsstring \<Rightarrow> nat option" where
  "arrayIndex k =
     (if k \<noteq> [] \<and> list_all isDigit k \<and> (length k = 1 \<or> hd k \<noteq> 0x30)
         \<and> decimalValue k < 2 ^ 32 - 1
      then Some (decimalValue k) else None)"

text \<open>\<^verbatim>\<open>o.k\<close> on an object given by its own properties; a missing one reads \<^verbatim>\<open>undefined\<close>.\<close>

definition getField :: "obj \<Rightarrow> jsstring \<Rightarrow> jsval" where
  "getField ps k = (case map_of ps k of Some v \<Rightarrow> v | None \<Rightarrow> JUndefined)"

text \<open>
  \<^verbatim>\<open>v.k\<close> for a value that is neither \<^verbatim>\<open>null\<close> nor \<^verbatim>\<open>undefined\<close> (on those the read
  throws, which the callers check with \<open>nullish\<close>). The program reads only under the
  literal keys of its records, none of which is inherited from a prototype, so only own
  properties are looked at here.
\<close>

fun getProp :: "jsval \<Rightarrow> jsstring \<Rightarrow> jsval" where
  "getProp (JObj ps) k = getField ps k"
| "getProp (JArr xs) k =
     (if k = lit ''length'' then JNum (Num (of_nat (length xs)))
      else (case arrayIndex k of
              Some i \<Rightarrow> if i < length xs then xs ! i else JUndefined
            | None \<Rightarrow> JUndefined))"
| "getProp (JStr s) k =
     (if k = lit ''length'' then JNum (Num (of_nat (length s)))
      else (case arrayIndex k of
              Some i \<Rightarrow> if i < length s then JStr [s ! i] else JUndefined
            | None \<Rightarrow> JUndefined))"
| "getProp _ k = JUndefined"

text \<open>\<^verbatim>\<open>o.k = v\<close> on own properties: in place when the key is there, appended otherwise.\<close>

definition setField :: "obj \<Rightarrow> jsstring \<Rightarrow> jsval \<Rightarrow> obj" where
  "setField ps k v = AList.update k v ps"

fun joinComma :: "jsstring list \<Rightarrow> jsstring" where
  "joinComma [] = []"
| "joinComma [s] = s"
| "joinComma (s # t # ss) = s @ lit '','' @ joinComma (t # ss)"

text \<open>
  \<^verbatim>\<open>String(v)\<close>. It throws a TypeError (\<open>None\<close>) on an object that has a property
  \<^verbatim>\<open>toString\<close> of its own: coming from JSON that property is no function, and the
  inherited \<^verbatim>\<open>valueOf\<close> returns the object itself. An array joins its elements with
  commas, \<^verbatim>\<open>null\<close> and \<^verbatim>\<open>undefined\<close> as the empty string.
\<close>

fun toStr :: "'k platform \<Rightarrow> jsval \<Rightarrow> jsstring option" where
  "toStr rt JUndefined = Some (lit ''undefined'')"
| "toStr rt JNull = Some (lit ''null'')"
| "toStr rt (JBool b) = Some (if b then lit ''true'' else lit ''false'')"
| "toStr rt (JNum n) = Some (numberToString rt n)"
| "toStr rt (JStr s) = Some s"
| "toStr rt (JArr xs) =
     map_option joinComma (those (map (\<lambda>e. if nullish e then Some [] else toStr rt e) xs))"
| "toStr rt (JObj ps) =
     (if lit ''toString'' \<in> fst ` set ps then None else Some (lit ''[object Object]''))"
| "toStr rt (JFunction f) = Some (lit ''function '' @ f @ lit ''() { [native code] }'')"
| "toStr rt JObjectPrototype = Some (lit ''[object Object]'')"

text \<open>\<^verbatim>\<open>Number(v)\<close>; an object goes through its string.\<close>

fun toNumber :: "'k platform \<Rightarrow> jsval \<Rightarrow> jsnum option" where
  "toNumber rt JUndefined = Some NaN"
| "toNumber rt JNull = Some (Num 0)"
| "toNumber rt (JBool b) = Some (Num (if b then 1 else 0))"
| "toNumber rt (JNum n) = Some n"
| "toNumber rt (JStr s) = Some (stringToNumber rt s)"
| "toNumber rt v = map_option (stringToNumber rt) (toStr rt v)"

subsection \<open>Numbers\<close>

fun isFinite :: "jsnum \<Rightarrow> bool" where
  "isFinite (Num q) = True"
| "isFinite _ = False"

text \<open>
  \<^verbatim>\<open>x - y\<close>. On two finite numbers the program only looks at whether the difference is
  zero and at its sign, and the rounded difference of two doubles is zero exactly when
  they are equal and has the sign of the exact difference otherwise; the exact
  difference stands for it.
\<close>

fun jsSub :: "jsnum \<Rightarrow> jsnum \<Rightarrow> jsnum" where
  "jsSub (Num a) (Num b) = Num (a - b)"
| "jsSub NaN _ = NaN"
| "jsSub _ NaN = NaN"
| "jsSub PosInfinity PosInfinity = NaN"
| "jsSub NegInfinity NegInfinity = NaN"
| "jsSub PosInfinity _ = PosInfinity"
| "jsSub NegInfinity _ = NegInfinity"
| "jsSub (Num a) PosInfinity = NegInfinity"
| "jsSub (Num a) NegInfinity = PosInfinity"

text \<open>\<^verbatim>\<open>Math.max(0, x)\<close>\<close>

fun mathMax0 :: "jsnum \<Rightarrow> jsnum" where
  "mathMax0 (Num q) = Num (max 0 q)"
| "mathMax0 NaN = NaN"
| "mathMax0 PosInfinity = PosInfinity"
| "mathMax0 NegInfinity = Num 0"

fun jsPositive :: "jsnum \<Rightarrow> bool" where
  "jsPositive (Num q) = (0 < q)"
| "jsPositive PosInfinity = True"
| "jsPositive _ = False"

fun jsNegative :: "jsnum \<Rightarrow> bool" where
  "jsNegative (Num q) = (q < 0)"
| "jsNegative NegInfinity = True"
| "jsNegative _ = False"

subsection \<open>Strings\<close>

text \<open>The white space and line terminators that \<^verbatim>\<open>trim\<close> removes.\<close>

definition isWhiteSpace :: "16 word \<Rightarrow> bool" where
  "isWhiteSpace c =
     (c = 0x9 \<or> c = 0xA \<or> c = 0xB \<or> c = 0xC \<or> c = 0xD \<or> c = 0x20 \<or> c = 0xA0
      \<or> c = 0x1680 \<or> (0x2000 \<le> c \<and> c \<le> 0x200A) \<or> c = 0x2028 \<or> c = 0x2029
      \<or> c = 0x202F \<or> c = 0x205F \<or> c = 0x3000 \<or> c = 0xFEFF)"

definition trim :: "jsstring \<Rightarrow> jsstring" where
  "trim s = rev (dropWhile isWhiteSpace (rev (dropWhile isWhiteSpace s)))"

section \<open>The helpers of the server\<close>

text \<open>\<^verbatim>\<open>cleanName(value)\<close>: \<^verbatim>\<open>String(value || '').trim().slice(0, 28)\<close>\<close>

definition cleanName :: "'k platform \<Rightarrow> jsval \<Rightarrow> jsstring option" where
  "cleanName rt v = map_option (\<lambda>s. take 28 (trim s)) (toStr rt (orElse v (JStr [])))"

text \<open>\<^verbatim>\<open>safeNum(value, fallback)\<close>; every call of the server passes (or defaults to) 0.\<close>

definition safeNum :: "'k platform \<Rightarrow> jsval \<Rightarrow> jsnum \<Rightarrow> jsnum option" where
  "safeNum rt v fallback =
     map_option (\<lambda>n. if isFinite n then n else fallback) (toNumber rt v)"

text \<open>\<^verbatim>\<open>a.localeCompare(b, 'he')\<close>: the order of the collation keys.\<close>

definition localeCompare :: "('k::linorder) platform \<Rightarrow> jsstring \<Rightarrow> jsstring \<Rightarrow> jsnum" where
  "localeCompare rt a b =
     (if collationKey rt a < collationKey rt b then Num (- 1)
      else if collationKey rt a = collationKey rt b then Num 0
      else Num 1)"

text \<open>
  \<^verbatim>\<open>scoreSort(a, b)\<close>, with the reads in the order of the source. A negative result
  puts \<open>a\<close> before \<open>b\<close>.
\<close>

definition scoreSort :: "('k::linorder) platform \<Rightarrow> obj \<Rightarrow> obj \<Rightarrow> jsnum option" where
  "scoreSort rt a b =
     do {
       rb \<leftarrow> safeNum rt (getField b (lit ''completedRounds'')) (Num 0);
       ra \<leftarrow> safeNum rt (getField a (lit ''completedRounds'')) (Num 0);
       if jsSub rb ra \<noteq> Num 0 then Some (jsSub rb ra)
       else do {
         ma \<leftarrow> safeNum rt (getField a (lit ''totalMistakes'')) (Num 0);
         mb \<leftarrow> safeNum rt (getField b (lit ''totalMistakes'')) (Num 0);
         if jsSub ma mb \<noteq> Num 0 then Some (jsSub ma mb)
         else do {
           na \<leftarrow> toStr rt (orElse (getField a (lit ''name'')) (JStr []));
           nb \<leftarrow> toStr rt (orElse (getField b (lit ''name'')) (JStr []));
           Some (localeCompare rt na nb)
         }
       }
     }"

text \<open>
  A record whose ranking fields hold primitive values (numbers, strings, or nothing),
  as the records built by \<^verbatim>\<open>join\<close>, \<^verbatim>\<open>loadState\<close> and \<^verbatim>\<open>normalizeStatsPatch\<close> do.
\<close>

definition rankable :: "obj \<Rightarrow> bool" where
  "rankable a =
     (primitive (getField a (lit ''completedRounds''))
      \<and> primitive (getField a (lit ''totalMistakes''))
      \<and> primitive (getField a (lit ''name'')))"

text \<open>The three expressions \<^verbatim>\<open>scoreSort\<close> compares, named for the statements below.\<close>

definition roundsOf :: "'k platform \<Rightarrow> obj \<Rightarrow> jsnum option" where
  "roundsOf rt a = safeNum rt (getField a (lit ''completedRounds'')) (Num 0)"

definition mistakesOf :: "'k platform \<Rightarrow> obj \<Rightarrow> jsnum option" where
  "mistakesOf rt a = safeNum rt (getField a (lit ''totalMistakes'')) (Num 0)"

definition nameOf :: "'k platform \<Rightarrow> obj \<Rightarrow> jsstring option" where
  "nameOf rt a = toStr rt (orElse (getField a (lit ''name'')) (JStr []))"

text \<open>\<open>a\<close> ranks above \<open>b\<close>: the comparator returns a negative number on \<open>(a, b)\<close>.\<close>

definition ranksAbove :: "('k::linorder) platform \<Rightarrow> obj \<Rightarrow> obj \<Rightarrow> bool" where
  "ranksAbove rt a b = (case scoreSort rt a b of Some d \<Rightarrow> jsNegative d | None \<Rightarrow> False)"

subsection \<open>Sorting\<close>

text \<open>
  \<^verbatim>\<open>Array.prototype.sort\<close> with a comparator is stable, and with a consistent
  comparator its result is the one stable sorted arrangement; insertion from the right
  computes it. A positive result moves the first argument behind the second; zero and
  \<^verbatim>\<open>NaN\<close> leave the two in their order. An exception of the comparator ends the sort
  (\<open>None\<close>); which comparison an engine reaches first is its own matter, so with a
  throwing comparator the model only says that some comparison was made.
\<close>

fun insertSorted :: "('a \<Rightarrow> 'a \<Rightarrow> jsnum option) \<Rightarrow> 'a \<Rightarrow> 'a list \<Rightarrow> 'a list option" where
  "insertSorted cmp x [] = Some [x]"
| "insertSorted cmp x (y # ys) =
     (case cmp x y of
        None \<Rightarrow> None
      | Some d \<Rightarrow>
          if jsPositive d then map_option ((#) y) (insertSorted cmp x ys)
          else Some (x # y # ys))"

fun arraySort :: "('a \<Rightarrow> 'a \<Rightarrow> jsnum option) \<Rightarrow> 'a list \<Rightarrow> 'a list option" where
  "arraySort cmp [] = Some []"
| "arraySort cmp (x # xs) =
     (case arraySort cmp xs of None \<Rightarrow> None | Some ys \<Rightarrow> insertSorted cmp x ys)"

text \<open>A list in which no element has to move behind its right neighbour.\<close>

fun inOrder :: "('a \<Rightarrow> 'a \<Rightarrow> jsnum option) \<Rightarrow> 'a list \<Rightarrow> bool" where
  "inOrder cmp (x # y # zs) =
     ((case cmp x y of Some d \<Rightarrow> \<not> jsPositive d | None \<Rightarrow> False) \<and> inOrder cmp (y # zs))"
| "inOrder cmp _ = True"

section \<open>The registry\<close>

text \<open>
  \<^verbatim>\<open>state.participants\<close> is a plain object used as a map from id to record. Its own
  properties are kept in insertion order. Being a plain object it also has a prototype:
  \<^verbatim>\<open>Object.prototype\<close> at first (\<open>None\<close>), or the record that an assignment under the
  key \<^verbatim>\<open>__proto__\<close> has put there. A read \<^verbatim>\<open>state.participants[id]\<close> that finds no own
  property goes on to the prototype.
\<close>

record registry =
  props :: "(jsstring \<times> obj) list"
  proto :: "obj option"

definition emptyRegistry :: registry where
  "emptyRegistry = \<lparr>props = [], proto = None\<rparr>"

definition objectPrototypeMethods :: "jsstring list" where
  "objectPrototypeMethods =
     map lit [''constructor'', ''__defineGetter__'', ''__defineSetter__'', ''hasOwnProperty'',
       ''__lookupGetter__'', ''__lookupSetter__'', ''isPrototypeOf'', ''propertyIsEnumerable'',
       ''toString'', ''valueOf'', ''toLocaleString'']"

text \<open>
  A read that reaches \<^verbatim>\<open>Object.prototype\<close>: its methods are functions (the one under
  \<^verbatim>\<open>constructor\<close> is \<^verbatim>\<open>Object\<close>), and \<^verbatim>\<open>__proto__\<close> is an accessor that returns the
  prototype of the object first asked.
\<close>

definition objectPrototypeGet :: "jsval \<Rightarrow> jsstring \<Rightarrow> jsval" where
  "objectPrototypeGet receiverProto k =
     (if k = lit ''__proto__'' then receiverProto
      else if k = lit ''constructor'' then JFunction (lit ''Object'')
      else if k \<in> set objectPrototypeMethods then JFunction k
      else JUndefined)"

text \<open>\<^verbatim>\<open>state.participants[id]\<close>\<close>

definition regGet :: "registry \<Rightarrow> jsstring \<Rightarrow> jsval" where
  "regGet r k =
     (case map_of (props r) k of
        Some p \<Rightarrow> JObj p
      | None \<Rightarrow>
          (case proto r of
             None \<Rightarrow> objectPrototypeGet JObjectPrototype k
           | Some q \<Rightarrow>
               (case map_of q k of
                  Some v \<Rightarrow> v
                | None \<Rightarrow> objectPrototypeGet (JObj q) k)))"

text \<open>
  \<^verbatim>\<open>state.participants[id] = record\<close>. Under \<^verbatim>\<open>__proto__\<close> (when nothing shadows the
  accessor) the assignment replaces the prototype and creates no property; otherwise it
  overwrites the own property in place or appends a new one.
\<close>

definition regSet :: "registry \<Rightarrow> jsstring \<Rightarrow> obj \<Rightarrow> registry" where
  "regSet r k p =
     (if k = lit ''__proto__'' \<and> map_of (props r) k = None
         \<and> (case proto r of None \<Rightarrow> True | Some q \<Rightarrow> map_of q k = None)
      then r\<lparr>proto := Some p\<rparr>
      else r\<lparr>props := AList.update k p (props r)\<rparr>)"

text \<open>
  \<^verbatim>\<open>Object.values(state.participants)\<close>: the own properties, those under array indices
  first in ascending order, then the others in insertion order.
\<close>

definition indexOfKey :: "jsstring \<times> 'a \<Rightarrow> nat" where
  "indexOfKey kv = (case arrayIndex (fst kv) of Some i \<Rightarrow> i | None \<Rightarrow> 0)"

definition ownPropertyOrder :: "(jsstring \<times> 'a) list \<Rightarrow> (jsstring \<times> 'a) list" where
  "ownPropertyOrder ps =
     sort_key indexOfKey (filter (\<lambda>kv. arrayIndex (fst kv) \<noteq> None) ps)
     @ filter (\<lambda>kv. arrayIndex (fst kv) = None) ps"

definition objectValues :: "registry \<Rightarrow> obj list" where
  "objectValues r = map snd (ownPropertyOrder (props r))"

text \<open>\<^verbatim>\<open>participantsList()\<close>\<close>

definition participantsList :: "('k::linorder) platform \<Rightarrow> registry \<Rightarrow> obj list option" where
  "participantsList rt r = arraySort (scoreSort rt) (objectValues r)"

section \<open>The server\<close>

text \<open>
  The scoreboard file, seen through what \<^verbatim>\<open>loadState\<close> does with it: it is missing, its
  text is blank, \<^verbatim>\<open>JSON.parse\<close> throws on it, or \<^verbatim>\<open>JSON.parse\<close> returns a value.
\<close>

datatype dataFile = NoFile | Blank | Unparsable | Json jsval

text \<open>
  The state of the process: the registry, the scoreboard file and the number of times
  the file has been written.
\<close>

record server =
  participants :: registry
  dataFile :: dataFile
  writes :: nat

text \<open>
  What \<^verbatim>\<open>JSON.parse(JSON.stringify(v, null, 2))\<close> returns: a number that is not finite
  becomes \<^verbatim>\<open>null\<close>, a property holding \<^verbatim>\<open>undefined\<close> or a function is left out, and such an
  array element becomes \<^verbatim>\<open>null\<close>.
\<close>

fun unserialisable :: "jsval \<Rightarrow> bool" where
  "unserialisable JUndefined = True"
| "unserialisable (JFunction f) = True"
| "unserialisable _ = False"

fun jsonValue :: "jsval \<Rightarrow> jsval" where
  "jsonValue (JNum n) = (if isFinite n then JNum n else JNull)"
| "jsonValue (JArr xs) = JArr (map (\<lambda>e. if unserialisable e then JNull else jsonValue e) xs)"
| "jsonValue (JObj ps) =
     JObj (map (\<lambda>kv. (fst kv, jsonValue (snd kv))) (filter (\<lambda>kv. \<not> unserialisable (snd kv)) ps))"
| "jsonValue JObjectPrototype = JObj []"
| "jsonValue v = v"

text \<open>
  \<^verbatim>\<open>buildScoreboardHtml\<close> is a rendering of the ranked list and is not modelled, except
  for the one way it acts back on the server: it converts fields of every row to
  strings and numbers, and throws where such a conversion does.
\<close>

definition rowRenders :: "'k platform \<Rightarrow> obj \<Rightarrow> bool" where
  "rowRenders rt row =
     (toStr rt (getField row (lit ''name'')) \<noteq> None
      \<and> safeNum rt (getField row (lit ''completedRounds'')) (Num 0) \<noteq> None
      \<and> safeNum rt (getField row (lit ''totalMistakes'')) (Num 0) \<noteq> None
      \<and> safeNum rt (getField row (lit ''lastRoundMs'')) (Num 0) \<noteq> None
      \<and> safeNum rt (getField row (lit ''bestRoundMs'')) (Num 0) \<noteq> None
      \<and> toStr rt (orElse (getField row (lit ''currentMiniGame'')) (JStr (lit ''-''))) \<noteq> None
      \<and> (if truthy (getField row (lit ''updatedAt''))
         then toStr rt (getField row (lit ''updatedAt'')) \<noteq> None else True))"

text \<open>
  \<^verbatim>\<open>persistState()\<close>: the ranked list is computed, the snapshot is written to the
  scoreboard file, then the table is rendered and written. The result says whether the
  call returned (\<open>True\<close>) or threw, and gives the state it leaves. \<open>now\<close> is what
  \<^verbatim>\<open>nowIso()\<close> returns; the separate readings of the clock within one request are not told
  apart. Writing a file is taken to succeed.
\<close>

definition snapshot :: "jsstring \<Rightarrow> obj list \<Rightarrow> jsval" where
  "snapshot now rows =
     JObj [(lit ''updatedAt'', JStr now), (lit ''participants'', JArr (map JObj rows))]"

definition persistState :: "('k::linorder) platform \<Rightarrow> jsstring \<Rightarrow> server \<Rightarrow> bool \<times> server" where
  "persistState rt now s =
     (case participantsList rt (participants s) of
        None \<Rightarrow> (False, s)
      | Some rows \<Rightarrow>
          (list_all (rowRenders rt) rows,
           s\<lparr>dataFile := Json (jsonValue (snapshot now rows)), writes := Suc (writes s)\<rparr>))"

text \<open>
  The body of the \<^verbatim>\<open>forEach\<close> in \<^verbatim>\<open>loadState\<close>, for one row, up to the assignment:
  \<open>None\<close> when it throws (reading a property of \<^verbatim>\<open>null\<close>, or a conversion),
  \<open>Some None\<close> when it returns early, and otherwise the id and the record to store.
\<close>

definition readRow :: "'k platform \<Rightarrow> jsstring \<Rightarrow> jsval \<Rightarrow> (jsstring \<times> obj) option option" where
  "readRow rt now row =
     (if nullish row then None
      else do {
        idText \<leftarrow> toStr rt (orElse (getProp row (lit ''id'')) (JStr []));
        name \<leftarrow> cleanName rt (getProp row (lit ''name''));
        if trim idText = [] \<or> name = [] then Some None
        else do {
          totalMistakes \<leftarrow> safeNum rt (getProp row (lit ''totalMistakes'')) (Num 0);
          roundMistakes \<leftarrow> safeNum rt (getProp row (lit ''roundMistakes'')) (Num 0);
          completedRounds \<leftarrow> safeNum rt (getProp row (lit ''completedRounds'')) (Num 0);
          totalFound \<leftarrow> safeNum rt (getProp row (lit ''totalFound'')) (Num 0);
          lastRoundMs \<leftarrow> safeNum rt (getProp row (lit ''lastRoundMs'')) (Num 0);
          bestRoundMs \<leftarrow> safeNum rt (getProp row (lit ''bestRoundMs'')) (Num 0);
          currentMiniGame \<leftarrow> toStr rt (orElse (getProp row (lit ''currentMiniGame'')) (JStr []));
          currentMiniGameIndex \<leftarrow> safeNum rt (getProp row (lit ''currentMiniGameIndex'')) (Num 0);
          Some (Some (trim idText,
            [(lit ''id'', JStr (trim idText)),
             (lit ''name'', JStr name),
             (lit ''totalMistakes'', JNum totalMistakes),
             (lit ''roundMistakes'', JNum roundMistakes),
             (lit ''completedRounds'', JNum completedRounds),
             (lit ''totalFound'', JNum totalFound),
             (lit ''lastRoundMs'', JNum lastRoundMs),
             (lit ''bestRoundMs'', JNum bestRoundMs),
             (lit ''currentMiniGame'', JStr currentMiniGame),
             (lit ''currentMiniGameIndex'', JNum currentMiniGameIndex),
             (lit ''updatedAt'', orElse (getProp row (lit ''updatedAt'')) (JStr now))]))
        }
      })"

text \<open>The whole body: the assignment \<^verbatim>\<open>state.participants[id] = {...}\<close> after the reads.\<close>

definition loadRow :: "'k platform \<Rightarrow> jsstring \<Rightarrow> jsval \<Rightarrow> registry \<Rightarrow> registry option" where
  "loadRow rt now row r =
     map_option (\<lambda>e. case e of None \<Rightarrow> r | Some (k, p) \<Rightarrow> regSet r k p) (readRow rt now row)"

text \<open>
  The \<^verbatim>\<open>forEach\<close> under the \<^verbatim>\<open>try\<close>: an exception leaves the loop, is caught and
  logged, and the rows after it are not visited.
\<close>

fun loadRows :: "'k platform \<Rightarrow> jsstring \<Rightarrow> jsval list \<Rightarrow> registry \<Rightarrow> registry" where
  "loadRows rt now [] r = r"
| "loadRows rt now (row # rows) r =
     (case loadRow rt now row r of None \<Rightarrow> r | Some r' \<Rightarrow> loadRows rt now rows r')"

text \<open>\<^verbatim>\<open>loadState()\<close>\<close>

definition loadState :: "'k platform \<Rightarrow> jsstring \<Rightarrow> dataFile \<Rightarrow> registry \<Rightarrow> registry" where
  "loadState rt now file r =
     (case file of
        Json parsed \<Rightarrow>
          if nullish parsed then r
          else loadRows rt now
                 (case getProp parsed (lit ''participants'') of JArr rows \<Rightarrow> rows | _ \<Rightarrow> []) r
      | _ \<Rightarrow> r)"





text \<open>The start of the process: \<^verbatim>\<open>loadState(); persistState();\<close> on the empty registry.\<close>

definition startup :: "('k::linorder) platform \<Rightarrow> jsstring \<Rightarrow> dataFile \<Rightarrow> bool \<times> server" where
  "startup rt now file =
     persistState rt now
       \<lparr>participants = loadState rt now file emptyRegistry, dataFile = file, writes = 0\<rparr>"

subsection \<open>Patches\<close>

fun decimalString :: "nat \<Rightarrow> jsstring" where
  "decimalString n =
     (if n < 10 then [of_nat (48 + n)]
      else decimalString (n div 10) @ [of_nat (48 + n mod 10)])"

text \<open>
  \<^verbatim>\<open>{ ...value }\<close>: the own enumerable properties of the value. A string and an array
  spread into their elements under the indices; a function, \<^verbatim>\<open>Object.prototype\<close> and the
  other primitives have none.
\<close>

fun spread :: "jsval \<Rightarrow> obj" where
  "spread (JObj ps) = ps"
| "spread (JArr xs) = zip (map decimalString [0..<length xs]) xs"
| "spread (JStr s) = zip (map decimalString [0..<length s]) (map (\<lambda>c. JStr [c]) s)"
| "spread _ = []"

text \<open>One line \<^verbatim>\<open>if (patch.k !== undefined) next.k = Math.max(0, safeNum(patch.k));\<close>\<close>

definition patchCounter :: "'k platform \<Rightarrow> jsval \<Rightarrow> jsstring \<Rightarrow> obj \<Rightarrow> obj option" where
  "patchCounter rt patch k next =
     (if getProp patch k \<noteq> JUndefined
      then map_option (\<lambda>n. setField next k (JNum (mathMax0 n))) (safeNum rt (getProp patch k) (Num 0))
      else Some next)"

text \<open>\<^verbatim>\<open>normalizeStatsPatch(existing, patch)\<close>; \<open>None\<close> when a conversion throws.\<close>

definition normalizeStatsPatch :: "'k platform \<Rightarrow> jsstring \<Rightarrow> jsval \<Rightarrow> jsval \<Rightarrow> obj option" where
  "normalizeStatsPatch rt now existing patch =
     do {
       name \<leftarrow> cleanName rt (getProp patch (lit ''name''));
       next1 \<leftarrow> Some (if name \<noteq> [] then setField (spread existing) (lit ''name'') (JStr name)
                     else spread existing);
       next2 \<leftarrow> (if getProp patch (lit ''currentMiniGame'') \<noteq> JUndefined
                 then map_option (\<lambda>s. setField next1 (lit ''currentMiniGame'') (JStr s))
                        (toStr rt (orElse (getProp patch (lit ''currentMiniGame'')) (JStr [])))
                 else Some next1);
       next3 \<leftarrow> (if getProp patch (lit ''currentMiniGameIndex'') \<noteq> JUndefined
                 then map_option (\<lambda>n. setField next2 (lit ''currentMiniGameIndex'') (JNum n))
                        (safeNum rt (getProp patch (lit ''currentMiniGameIndex'')) (Num 0))
                 else Some next2);
       next4 \<leftarrow> patchCounter rt patch (lit ''totalMistakes'') next3;
       next5 \<leftarrow> patchCounter rt patch (lit ''roundMistakes'') next4;
       next6 \<leftarrow> patchCounter rt patch (lit ''completedRounds'') next5;
       next7 \<leftarrow> patchCounter rt patch (lit ''totalFound'') next6;
       next8 \<leftarrow> patchCounter rt patch (lit ''lastRoundMs'') next7;
       next9 \<leftarrow> patchCounter rt patch (lit ''bestRoundMs'') next8;
       Some (setField next9 (lit ''updatedAt'') (JStr now))
     }"

subsection \<open>Requests\<close>

text \<open>
  What \<^verbatim>\<open>handleApi\<close> sends: 200 with a payload, 400 \<^verbatim>\<open>name_required\<close>, 404
  \<^verbatim>\<open>participant_not_found\<close>, or 500 with the message of the exception caught.
\<close>

datatype response = Ok jsval | NameRequired | ParticipantNotFound | ServerError

text \<open>The six counters of a record.\<close>

definition counterKeys :: "jsstring list" where
  "counterKeys =
     map lit [''totalMistakes'', ''roundMistakes'', ''completedRounds'', ''totalFound'',
       ''lastRoundMs'', ''bestRoundMs'']"

text \<open>The record that the join handler builds for a new participant.\<close>

definition newRow :: "jsstring \<Rightarrow> jsstring \<Rightarrow> jsstring \<Rightarrow> obj" where
  "newRow newId name now =
     [(lit ''id'', JStr newId),
      (lit ''name'', JStr name),
      (lit ''totalMistakes'', JNum (Num 0)),
      (lit ''roundMistakes'', JNum (Num 0)),
      (lit ''completedRounds'', JNum (Num 0)),
      (lit ''totalFound'', JNum (Num 0)),
      (lit ''lastRoundMs'', JNum (Num 0)),
      (lit ''bestRoundMs'', JNum (Num 0)),
      (lit ''currentMiniGame'', JStr []),
      (lit ''currentMiniGameIndex'', JNum (Num 0)),
      (lit ''updatedAt'', JStr now)]"

text \<open>
  \<^verbatim>\<open>POST /group-api/join\<close> with the parsed body. \<open>newId\<close> is what \<^verbatim>\<open>createId()\<close>
  returns for this request: a random UUID, or the time and a random suffix. The handler
  stores the record under it without looking whether the key is taken.
\<close>

definition join :: "('k::linorder) platform \<Rightarrow> jsstring \<Rightarrow> jsstring \<Rightarrow> jsval \<Rightarrow> server \<Rightarrow> response \<times> server" where
  "join rt now newId body s =
     (if nullish body then (ServerError, s)
      else case cleanName rt (getProp body (lit ''name'')) of
        None \<Rightarrow> (ServerError, s)
      | Some name \<Rightarrow>
          if name = [] then (NameRequired, s)
          else
            let participant = newRow newId name now
            in (case persistState rt now
                      (s\<lparr>participants := regSet (participants s) newId participant\<rparr>) of
                  (False, s') \<Rightarrow> (ServerError, s')
                | (True, s') \<Rightarrow>
                    (case participantsList rt (participants s') of
                       None \<Rightarrow> (ServerError, s')
                     | Some rows \<Rightarrow>
                         (Ok (JObj [(lit ''id'', JStr newId),
                                    (lit ''participant'', JObj participant),
                                    (lit ''participants'', JArr (map JObj rows))]), s'))))"

text \<open>\<^verbatim>\<open>typeof v === 'object'\<close>\<close>

fun typeofObject :: "jsval \<Rightarrow> bool" where
  "typeofObject JNull = True"
| "typeofObject (JArr _) = True"
| "typeofObject (JObj _) = True"
| "typeofObject JObjectPrototype = True"
| "typeofObject _ = False"

text \<open>\<^verbatim>\<open>POST /group-api/update\<close> with the parsed body.\<close>

definition update :: "('k::linorder) platform \<Rightarrow> jsstring \<Rightarrow> jsval \<Rightarrow> server \<Rightarrow> response \<times> server" where
  "update rt now body s =
     (if nullish body then (ServerError, s)
      else case toStr rt (orElse (getProp body (lit ''id'')) (JStr [])) of
        None \<Rightarrow> (ServerError, s)
      | Some idText \<Rightarrow>
          if trim idText = [] \<or> \<not> truthy (regGet (participants s) (trim idText))
          then (ParticipantNotFound, s)
          else
            (case normalizeStatsPatch rt now (regGet (participants s) (trim idText))
                   (if truthy body \<and> typeofObject (getProp body (lit ''stats''))
                       \<and> truthy (getProp body (lit ''stats''))
                    then getProp body (lit ''stats'') else JObj []) of
              None \<Rightarrow> (ServerError, s)
            | Some next \<Rightarrow>
                (case persistState rt now
                        (s\<lparr>participants := regSet (participants s) (trim idText) next\<rparr>) of
                   (False, s') \<Rightarrow> (ServerError, s')
                 | (True, s') \<Rightarrow>
                     (case participantsList rt (participants s') of
                        None \<Rightarrow> (ServerError, s')
                      | Some rows \<Rightarrow>
                          (Ok (JObj [(lit ''ok'', JBool True),
                                     (lit ''participant'', regGet (participants s') (trim idText)),
                                     (lit ''participants'', JArr (map JObj rows))]), s')))))"

subsection \<open>A runtime to evaluate examples on\<close>

text \<open>
  It reads a blank string as 0 and a string of decimal digits as its value, writes a
  natural number in decimal, and collates by code units. It agrees with a JavaScript
  engine on the strings and numbers of the examples below, which is all it is used for.
\<close>

definition samplePlatform :: "jsstring platform" where
  "samplePlatform =
     \<lparr>stringToNumber =
        (\<lambda>s. if trim s = [] then Num 0
             else if list_all isDigit (trim s) then Num (of_nat (decimalValue (trim s)))
             else NaN),
      numberToString =
        (\<lambda>n. case n of
               Num q \<Rightarrow> decimalString (nat \<lfloor>q\<rfloor>)
             | NaN \<Rightarrow> lit ''NaN''
             | PosInfinity \<Rightarrow> lit ''Infinity''
             | NegInfinity \<Rightarrow> lit ''-Infinity''),
      collationKey = (\<lambda>s. s)\<rparr>"


text \<open>
  What the comparator looks at in a record: the two numbers and the collation key of the
  name.
\<close>

definition rankKey :: "'k platform \<Rightarrow> obj \<Rightarrow> jsnum option \<times> jsnum option \<times> 'k option" where
  "rankKey rt a = (roundsOf rt a, mistakesOf rt a, map_option (collationKey rt) (nameOf rt a))"

section \<open>Example inputs\<close>

text \<open>Scenario C of the specification, the second row with a count that is not finite.\<close>

definition rowA :: obj where
  "rowA = [(lit ''id'', JStr (lit ''p1'')), (lit ''name'', JStr (lit ''A'')),
     (lit ''completedRounds'', JNum (Num 3)), (lit ''totalMistakes'', JNum (Num 2))]"

definition rowB :: obj where
  "rowB = [(lit ''id'', JStr (lit ''p2'')), (lit ''name'', JStr (lit ''B'')),
     (lit ''completedRounds'', JNum (Num 3)), (lit ''totalMistakes'', JNum PosInfinity)]"

text \<open>Scenario B of the specification: a record and a patch that names only the rounds.\<close>

definition rowP :: obj where
  "rowP = [(lit ''id'', JStr (lit ''p7'')), (lit ''name'', JStr (lit ''Dana'')),
     (lit ''totalMistakes'', JNum (Num 5)), (lit ''roundMistakes'', JNum (Num 0)),
     (lit ''completedRounds'', JNum (Num 2)), (lit ''totalFound'', JNum (Num 0)),
     (lit ''lastRoundMs'', JNum (Num 0)), (lit ''bestRoundMs'', JNum (Num 0)),
     (lit ''currentMiniGame'', JStr []), (lit ''currentMiniGameIndex'', JNum (Num 0)),
     (lit ''updatedAt'', JStr (lit ''t0''))]"

definition rowPatched :: obj where
  "rowPatched = [(lit ''id'', JStr (lit ''p7'')), (lit ''name'', JStr (lit ''Dana'')),
     (lit ''totalMistakes'', JNum (Num 5)), (lit ''roundMistakes'', JNum (Num 0)),
     (lit ''completedRounds'', JNum (Num 3)), (lit ''totalFound'', JNum (Num 0)),
     (lit ''lastRoundMs'', JNum (Num 0)), (lit ''bestRoundMs'', JNum (Num 0)),
     (lit ''currentMiniGame'', JStr []), (lit ''currentMiniGameIndex'', JNum (Num 0)),
     (lit ''updatedAt'', JStr (lit ''t1''))]"

definition patchRounds :: jsval where
  "patchRounds = JObj [(lit ''completedRounds'', JNum (Num 3))]"

text \<open>Scenario D: a join whose name is three spaces, on a server that holds one record.\<close>

definition blankBody :: jsval where
  "blankBody = JObj [(lit ''name'', JStr (lit ''   ''))]"

definition server0 :: server where
  "server0 = \<lparr>participants = \<lparr>props = [(lit ''p7'', rowP)], proto = None\<rparr>,
     dataFile = NoFile, writes = 1\<rparr>"








text \<open>
  An update under the id \<^verbatim>\<open>constructor\<close>; a scoreboard file with a negative count; a
  join under a name of 29 code units whose 28th is a space, on a server started without a
  file.
\<close>

definition bodyConstructor :: jsval where
  "bodyConstructor = JObj [(lit ''id'', JStr (lit ''constructor''))]"

definition negativeFile :: dataFile where
  "negativeFile = Json (JObj [(lit ''updatedAt'', JStr (lit ''t0'')),
     (lit ''participants'', JArr [JObj [(lit ''id'', JStr (lit ''p1'')),
        (lit ''name'', JStr (lit ''Dana'')), (lit ''totalMistakes'', JNum (Num (- 5)))]])])"

definition negativeRow :: obj where
  "negativeRow = [(lit ''id'', JStr (lit ''p1'')), (lit ''name'', JStr (lit ''Dana'')),
     (lit ''totalMistakes'', JNum (Num (- 5))), (lit ''roundMistakes'', JNum (Num 0)),
     (lit ''completedRounds'', JNum (Num 0)), (lit ''totalFound'', JNum (Num 0)),
     (lit ''lastRoundMs'', JNum (Num 0)), (lit ''bestRoundMs'', JNum (Num 0)),
     (lit ''currentMiniGame'', JStr []), (lit ''currentMiniGameIndex'', JNum (Num 0)),
     (lit ''updatedAt'', JStr (lit ''t1''))]"

definition longNameBody :: jsval where
  "longNameBody = JObj [(lit ''name'', JStr (lit ''aaaaaaaaaaaaaaaaaaaaaaaaaaa b''))]"

definition freshServer :: server where
  "freshServer = snd (startup samplePlatform (lit ''t0'') NoFile)"

definition joinedServer :: server where
  "joinedServer = snd (join samplePlatform (lit ''t1'') (lit ''id-1'') longNameBody freshServer)"

text \<open>Scenario A: two records of two joins under the same name.\<close>

definition danaOne :: obj where
  "danaOne = newRow (lit ''id-1'') (lit ''Dana'') (lit ''t1'')"

definition danaTwo :: obj where
  "danaTwo = newRow (lit ''id-2'') (lit ''Dana'') (lit ''t2'')"

text \<open>
  An id of the shape \<^verbatim>\<open>crypto.randomUUID()\<close> returns, and a join body.
\<close>

definition uuidOne :: jsstring where
  "uuidOne = lit ''123e4567-e89b-42d3-a456-426614174000''"

definition danaBody :: jsval where
  "danaBody = JObj [(lit ''name'', JStr (lit ''Dana''))]"








section \<open>Theorems\<close>

lemma toStr_primitive: "primitive v \<Longrightarrow> \<exists>s. toStr rt v = Some s"
  by (cases v) simp_all

lemma toNumber_primitive: "primitive v \<Longrightarrow> \<exists>n. toNumber rt v = Some n"
  by (cases v) simp_all

lemma safeNum_primitive: "primitive v \<Longrightarrow> \<exists>q. safeNum rt v (Num 0) = Some (Num q)"
proof -
  assume "primitive v"
  then obtain n where n: "toNumber rt v = Some n"
    using toNumber_primitive by blast
  show ?thesis
    by (cases n) (simp_all add: safeNum_def n)
qed

lemma scoreSort_value:
  assumes "rankable a" "rankable b"
  shows "\<exists>ra rb ma mb na nb.
      roundsOf rt a = Some (Num ra) \<and> roundsOf rt b = Some (Num rb)
    \<and> mistakesOf rt a = Some (Num ma) \<and> mistakesOf rt b = Some (Num mb)
    \<and> nameOf rt a = Some na \<and> nameOf rt b = Some nb
    \<and> scoreSort rt a b =
        Some (if rb \<noteq> ra then Num (rb - ra) else if ma \<noteq> mb then Num (ma - mb)
              else localeCompare rt na nb)"
proof -
  obtain ra where ra: "safeNum rt (getField a (lit ''completedRounds'')) (Num 0) = Some (Num ra)"
    using assms(1) safeNum_primitive unfolding rankable_def by blast
  obtain rb where rb: "safeNum rt (getField b (lit ''completedRounds'')) (Num 0) = Some (Num rb)"
    using assms(2) safeNum_primitive unfolding rankable_def by blast
  obtain ma where ma: "safeNum rt (getField a (lit ''totalMistakes'')) (Num 0) = Some (Num ma)"
    using assms(1) safeNum_primitive unfolding rankable_def by blast
  obtain mb where mb: "safeNum rt (getField b (lit ''totalMistakes'')) (Num 0) = Some (Num mb)"
    using assms(2) safeNum_primitive unfolding rankable_def by blast
  have pa: "primitive (orElse (getField a (lit ''name'')) (JStr []))"
    using assms(1) unfolding rankable_def orElse_def by simp
  have pb: "primitive (orElse (getField b (lit ''name'')) (JStr []))"
    using assms(2) unfolding rankable_def orElse_def by simp
  obtain na where na: "toStr rt (orElse (getField a (lit ''name'')) (JStr [])) = Some na"
    using pa toStr_primitive by blast
  obtain nb where nb: "toStr rt (orElse (getField b (lit ''name'')) (JStr [])) = Some nb"
    using pb toStr_primitive by blast
  have "scoreSort rt a b =
        Some (if rb \<noteq> ra then Num (rb - ra) else if ma \<noteq> mb then Num (ma - mb)
              else localeCompare rt na nb)"
    by (simp add: scoreSort_def ra rb ma mb na nb)
  with ra rb ma mb na nb show ?thesis
    unfolding roundsOf_def mistakesOf_def nameOf_def by blast
qed

subsection \<open>The comparator\<close>

text \<open>
  Claim C1. On two participant records (their ranking fields hold primitive values or are
  missing) the comparator returns a number and throws nothing; the record with more
  completed rounds ranks above the other; with equal rounds the one with fewer total
  mistakes ranks above the other. The numbers compared are those of \<^verbatim>\<open>safeNum\<close>: a
  field that is missing or converts to a number that is not finite counts as 0.
\<close>

theorem scoreSort_rounds_then_mistakes:
  assumes "rankable a" and "rankable b"
  shows "(\<exists>ra rb ma mb d.
      roundsOf rt a = Some (Num ra) \<and> roundsOf rt b = Some (Num rb)
    \<and> mistakesOf rt a = Some (Num ma) \<and> mistakesOf rt b = Some (Num mb)
    \<and> scoreSort rt a b = Some d
    \<and> (rb < ra \<longrightarrow> ranksAbove rt a b)
    \<and> (ra = rb \<and> ma < mb \<longrightarrow> ranksAbove rt a b)
    \<and> (ra < rb \<longrightarrow> jsPositive d \<and> \<not> ranksAbove rt a b)
    \<and> (ra = rb \<and> mb < ma \<longrightarrow> jsPositive d \<and> \<not> ranksAbove rt a b))
    \<and> (toNumber rt v = Some n \<and> \<not> isFinite n \<longrightarrow> safeNum rt v (Num 0) = Some (Num 0))
    \<and> (map_of a k = None \<longrightarrow> safeNum rt (getField a k) (Num 0) = Some (Num 0))"
proof -
  obtain ra rb ma mb na nb where v:
    "roundsOf rt a = Some (Num ra)" "roundsOf rt b = Some (Num rb)"
    "mistakesOf rt a = Some (Num ma)" "mistakesOf rt b = Some (Num mb)"
    "scoreSort rt a b =
        Some (if rb \<noteq> ra then Num (rb - ra) else if ma \<noteq> mb then Num (ma - mb)
              else localeCompare rt na nb)"
    using scoreSort_value [OF assms, of rt] by blast
  let ?d = "if rb \<noteq> ra then Num (rb - ra) else if ma \<noteq> mb then Num (ma - mb)
              else localeCompare rt na nb"
  have "(rb < ra \<longrightarrow> ranksAbove rt a b)
    \<and> (ra = rb \<and> ma < mb \<longrightarrow> ranksAbove rt a b)
    \<and> (ra < rb \<longrightarrow> jsPositive ?d \<and> \<not> ranksAbove rt a b)
    \<and> (ra = rb \<and> mb < ma \<longrightarrow> jsPositive ?d \<and> \<not> ranksAbove rt a b)"
    by (auto simp: ranksAbove_def v(5))
  with v have 1: "\<exists>ra rb ma mb d.
      roundsOf rt a = Some (Num ra) \<and> roundsOf rt b = Some (Num rb)
    \<and> mistakesOf rt a = Some (Num ma) \<and> mistakesOf rt b = Some (Num mb)
    \<and> scoreSort rt a b = Some d
    \<and> (rb < ra \<longrightarrow> ranksAbove rt a b)
    \<and> (ra = rb \<and> ma < mb \<longrightarrow> ranksAbove rt a b)
    \<and> (ra < rb \<longrightarrow> jsPositive d \<and> \<not> ranksAbove rt a b)
    \<and> (ra = rb \<and> mb < ma \<longrightarrow> jsPositive d \<and> \<not> ranksAbove rt a b)"
    by blast
  have 2: "toNumber rt v = Some n \<and> \<not> isFinite n \<longrightarrow> safeNum rt v (Num 0) = Some (Num 0)"
    by (simp add: safeNum_def)
  have 3: "map_of a k = None \<longrightarrow> safeNum rt (getField a k) (Num 0) = Some (Num 0)"
    by (simp add: safeNum_def getField_def)
  from 1 2 3 show ?thesis by blast
qed

theorem scoreSort_rounds_then_mistakes_witness:
  "rankable rowB \<and> rankable rowA
   \<and> roundsOf samplePlatform rowA = Some (Num 3) \<and> roundsOf samplePlatform rowB = Some (Num 3)
   \<and> mistakesOf samplePlatform rowA = Some (Num 2) \<and> mistakesOf samplePlatform rowB = Some (Num 0)
   \<and> ranksAbove samplePlatform rowB rowA
   \<and> toNumber samplePlatform (JNum PosInfinity) = Some PosInfinity
   \<and> safeNum samplePlatform (JNum PosInfinity) (Num 0) = Some (Num 0)
   \<and> map_of rowB (lit ''roundMistakes'') = None
   \<and> safeNum samplePlatform (getField rowB (lit ''roundMistakes'')) (Num 0) = Some (Num 0)"
proof -
  have r: "rankable rowB" "rankable rowA"
    by code_simp+
  have e: "roundsOf samplePlatform rowA = Some (Num 3)" "roundsOf samplePlatform rowB = Some (Num 3)"
    "mistakesOf samplePlatform rowA = Some (Num 2)" "mistakesOf samplePlatform rowB = Some (Num 0)"
    by code_simp+
  have n: "toNumber samplePlatform (JNum PosInfinity) = Some PosInfinity \<and> \<not> isFinite PosInfinity"
    by simp
  have m: "map_of rowB (lit ''roundMistakes'') = None"
    by code_simp
  from scoreSort_rounds_then_mistakes [OF r, of samplePlatform "JNum PosInfinity" PosInfinity "lit ''roundMistakes''"]
  show ?thesis
    using r e n m by auto
qed

subsection \<open>Patches\<close>

lemma getField_setField: "getField (setField ps k v) k' = (if k' = k then v else getField ps k')"
  by (simp add: getField_def setField_def update_conv')

lemma patchCounter_frame:
  assumes "patchCounter rt patch k next = Some next'"
    and "k' \<noteq> k \<or> getProp patch k = JUndefined"
  shows "getField next' k' = getField next k'"
  using assms by (auto simp: patchCounter_def getField_setField split: if_splits)

lemma cleanName_undefined: "cleanName rt JUndefined = Some []"
  by (simp add: cleanName_def orElse_def trim_def)

lemma patchCounter_absent: "getProp patch k = JUndefined \<Longrightarrow> patchCounter rt patch k next = Some next"
  by (simp add: patchCounter_def)

lemma optionalSet_frame:
  assumes "(if c then map_option (\<lambda>s. setField nx key (f s)) m else Some nx) = Some nx'"
    and "k \<noteq> key \<or> \<not> c"
  shows "getField nx' k = getField nx k"
  using assms by (cases c; cases m) (auto simp: getField_setField)

lemma bind_SomeE:
  assumes "Option.bind m f = Some y"
  obtains x where "m = Some x" and "f x = Some y"
  using assms by (cases m) auto

lemma normalizeStatsPatch_unfold:
  assumes "normalizeStatsPatch rt now existing patch = Some next"
  obtains name next1 next2 next3 next4 next5 next6 next7 next8 next9 where
     "cleanName rt (getProp patch (lit ''name'')) = Some name"
     "next1 = (if name \<noteq> [] then setField (spread existing) (lit ''name'') (JStr name)
                     else spread existing)"
     "(if getProp patch (lit ''currentMiniGame'') \<noteq> JUndefined
                 then map_option (\<lambda>s. setField next1 (lit ''currentMiniGame'') (JStr s))
                        (toStr rt (orElse (getProp patch (lit ''currentMiniGame'')) (JStr [])))
                 else Some next1) = Some next2"
     "(if getProp patch (lit ''currentMiniGameIndex'') \<noteq> JUndefined
                 then map_option (\<lambda>n. setField next2 (lit ''currentMiniGameIndex'') (JNum n))
                        (safeNum rt (getProp patch (lit ''currentMiniGameIndex'')) (Num 0))
                 else Some next2) = Some next3"
     "patchCounter rt patch (lit ''totalMistakes'') next3 = Some next4"
     "patchCounter rt patch (lit ''roundMistakes'') next4 = Some next5"
     "patchCounter rt patch (lit ''completedRounds'') next5 = Some next6"
     "patchCounter rt patch (lit ''totalFound'') next6 = Some next7"
     "patchCounter rt patch (lit ''lastRoundMs'') next7 = Some next8"
     "patchCounter rt patch (lit ''bestRoundMs'') next8 = Some next9"
     "next = setField next9 (lit ''updatedAt'') (JStr now)"
proof -
  from assms [unfolded normalizeStatsPatch_def]
  show ?thesis
    apply (elim bind_SomeE)
    apply (rule that)
    apply (assumption | simp only: option.inject)+
    done
qed

text \<open>
  Claim C2. A patch that \<^verbatim>\<open>normalizeStatsPatch\<close> accepts changes only fields it names:
  every field of the record under a key that the patch does not have keeps its value,
  except \<^verbatim>\<open>updatedAt\<close>, which becomes the current time. The empty patch is accepted and
  changes \<^verbatim>\<open>updatedAt\<close> alone.
\<close>

theorem normalizeStatsPatch_frame:
  assumes "normalizeStatsPatch rt now (JObj existing) patch = Some next"
  shows "getField next (lit ''updatedAt'') = JStr now
    \<and> (\<forall>k. k \<noteq> lit ''updatedAt'' \<and> getProp patch k = JUndefined
          \<longrightarrow> getField next k = getField existing k)
    \<and> normalizeStatsPatch rt now (JObj existing) (JObj [])
        = Some (setField existing (lit ''updatedAt'') (JStr now))"
proof -
  obtain name next1 next2 next3 next4 next5 next6 next7 next8 next9 where u:
     "cleanName rt (getProp patch (lit ''name'')) = Some name"
     "next1 = (if name \<noteq> [] then setField (spread (JObj existing)) (lit ''name'') (JStr name)
                     else spread (JObj existing))"
     "(if getProp patch (lit ''currentMiniGame'') \<noteq> JUndefined
                 then map_option (\<lambda>s. setField next1 (lit ''currentMiniGame'') (JStr s))
                        (toStr rt (orElse (getProp patch (lit ''currentMiniGame'')) (JStr [])))
                 else Some next1) = Some next2"
     "(if getProp patch (lit ''currentMiniGameIndex'') \<noteq> JUndefined
                 then map_option (\<lambda>n. setField next2 (lit ''currentMiniGameIndex'') (JNum n))
                        (safeNum rt (getProp patch (lit ''currentMiniGameIndex'')) (Num 0))
                 else Some next2) = Some next3"
     "patchCounter rt patch (lit ''totalMistakes'') next3 = Some next4"
     "patchCounter rt patch (lit ''roundMistakes'') next4 = Some next5"
     "patchCounter rt patch (lit ''completedRounds'') next5 = Some next6"
     "patchCounter rt patch (lit ''totalFound'') next6 = Some next7"
     "patchCounter rt patch (lit ''lastRoundMs'') next7 = Some next8"
     "patchCounter rt patch (lit ''bestRoundMs'') next8 = Some next9"
     "next = setField next9 (lit ''updatedAt'') (JStr now)"
    by (rule normalizeStatsPatch_unfold [OF assms])
  have stamp: "getField next (lit ''updatedAt'') = JStr now"
    by (simp add: u(11) getField_setField)
  have frame: "getField next k = getField existing k"
    if k: "k \<noteq> lit ''updatedAt''" "getProp patch k = JUndefined" for k
  proof -
    have absent: "k \<noteq> key \<or> getProp patch key = JUndefined" for key
      using k(2) by (cases "k = key") simp_all
    have absent': "k \<noteq> key \<or> \<not> getProp patch key \<noteq> JUndefined" for key
      using k(2) by (cases "k = key") simp_all
    have 1: "getField next1 k = getField existing k"
    proof (cases "k = lit ''name''")
      case True
      then have "name = []"
        using u(1) k(2) by (simp add: cleanName_undefined)
      then show ?thesis by (simp add: u(2))
    next
      case False
      then show ?thesis by (simp add: u(2) getField_setField)
    qed
    have 2: "getField next2 k = getField next1 k"
      by (rule optionalSet_frame [OF u(3) absent'])
    have 3: "getField next3 k = getField next2 k"
      by (rule optionalSet_frame [OF u(4) absent'])
    have 4: "getField next4 k = getField next3 k"
      by (rule patchCounter_frame [OF u(5) absent])
    have 5: "getField next5 k = getField next4 k"
      by (rule patchCounter_frame [OF u(6) absent])
    have 6: "getField next6 k = getField next5 k"
      by (rule patchCounter_frame [OF u(7) absent])
    have 7: "getField next7 k = getField next6 k"
      by (rule patchCounter_frame [OF u(8) absent])
    have 8: "getField next8 k = getField next7 k"
      by (rule patchCounter_frame [OF u(9) absent])
    have 9: "getField next9 k = getField next8 k"
      by (rule patchCounter_frame [OF u(10) absent])
    have "getField next k = getField next9 k"
      using k(1) by (simp add: u(11) getField_setField)
    with 1 2 3 4 5 6 7 8 9 show ?thesis by simp
  qed
  have empty: "normalizeStatsPatch rt now (JObj existing) (JObj [])
        = Some (setField existing (lit ''updatedAt'') (JStr now))"
    by (simp add: normalizeStatsPatch_def getField_def cleanName_undefined patchCounter_def)
  from stamp frame empty show ?thesis by blast
qed


theorem normalizeStatsPatch_frame_witness:
  "normalizeStatsPatch samplePlatform (lit ''t1'') (JObj rowP) patchRounds = Some rowPatched
   \<and> getField rowPatched (lit ''updatedAt'') = JStr (lit ''t1'')
   \<and> lit ''totalMistakes'' \<noteq> lit ''updatedAt''
   \<and> getProp patchRounds (lit ''totalMistakes'') = JUndefined
   \<and> getField rowPatched (lit ''totalMistakes'') = getField rowP (lit ''totalMistakes'')
   \<and> getField rowP (lit ''totalMistakes'') = JNum (Num 5)
   \<and> getField rowPatched (lit ''completedRounds'') = JNum (Num 3)"
proof -
  have e: "normalizeStatsPatch samplePlatform (lit ''t1'') (JObj rowP) patchRounds = Some rowPatched"
    by code_simp
  have h: "lit ''totalMistakes'' \<noteq> lit ''updatedAt''
     \<and> getProp patchRounds (lit ''totalMistakes'') = JUndefined"
    by code_simp
  have v: "getField rowP (lit ''totalMistakes'') = JNum (Num 5)"
    "getField rowPatched (lit ''completedRounds'') = JNum (Num 3)"
    by code_simp+
  note f = normalizeStatsPatch_frame [OF e]
  have s: "getField rowPatched (lit ''updatedAt'') = JStr (lit ''t1'')"
    by (rule conjunct1 [OF f])
  have "\<forall>k. k \<noteq> lit ''updatedAt'' \<and> getProp patchRounds k = JUndefined
          \<longrightarrow> getField rowPatched k = getField rowP k"
    by (rule conjunct1 [OF conjunct2 [OF f]])
  then have "getField rowPatched (lit ''totalMistakes'') = getField rowP (lit ''totalMistakes'')"
    using h by (elim allE impE) assumption+
  with e h v s show ?thesis by (intro conjI) (assumption | erule conjunct1 | erule conjunct2)+
qed

subsection \<open>Joining\<close>

lemma trim_blank: "list_all isWhiteSpace w \<Longrightarrow> trim w = []"
proof -
  assume "list_all isWhiteSpace w"
  then have "dropWhile isWhiteSpace w = []"
    by (simp add: list_all_iff)
  then show ?thesis
    by (simp only: trim_def rev.simps dropWhile.simps)
qed

text \<open>
  Claim C7. A join whose name input converts to a string that trims to nothing (a string
  of white space only is one) is answered 400 \<^verbatim>\<open>name_required\<close>, and the server is
  left as it was: no record is inserted and nothing is written.
\<close>

theorem join_name_required:
  assumes "\<not> nullish body"
    and "toStr rt (orElse (getProp body (lit ''name'')) (JStr [])) = Some text"
    and "trim text = []"
  shows "join rt now newId body s = (NameRequired, s)
    \<and> (list_all isWhiteSpace w
         \<longrightarrow> join rt now newId (JObj [(lit ''name'', JStr w)]) s = (NameRequired, s))"
proof -
  have 1: "join rt now newId body s = (NameRequired, s)"
    using assms by (simp add: join_def cleanName_def)
  have 2: "join rt now newId (JObj [(lit ''name'', JStr w)]) s = (NameRequired, s)"
    if "list_all isWhiteSpace w"
    using trim_blank [OF that]
    by (simp add: join_def cleanName_def getField_def orElse_def trim_def)
  from 1 2 show ?thesis by simp
qed

theorem join_name_required_witness:
  "\<not> nullish blankBody
   \<and> toStr samplePlatform (orElse (getProp blankBody (lit ''name'')) (JStr [])) = Some (lit ''   '')
   \<and> trim (lit ''   '') = []
   \<and> list_all isWhiteSpace (lit ''   '')
   \<and> join samplePlatform (lit ''t1'') (lit ''id1'') blankBody server0 = (NameRequired, server0)"
proof -
  have a: "\<not> nullish blankBody" by code_simp
  have b: "toStr samplePlatform (orElse (getProp blankBody (lit ''name'')) (JStr [])) = Some (lit ''   '')"
    by code_simp
  have c: "trim (lit ''   '') = []" by code_simp
  have d: "list_all isWhiteSpace (lit ''   '')" by code_simp
  have "join samplePlatform (lit ''t1'') (lit ''id1'') blankBody server0 = (NameRequired, server0)"
    by (rule conjunct1 [OF join_name_required [OF a b c]])
  with a b c d show ?thesis by simp
qed

subsection \<open>Sorting and persisting never throw on plain records\<close>






lemma scoreSort_rankable: "rankable a \<Longrightarrow> rankable b \<Longrightarrow> \<exists>d. scoreSort rt a b = Some d"
  using scoreSort_value [of a b rt] by auto





lemma length_ownPropertyOrder: "length (ownPropertyOrder ps) = length ps"
proof -
  have "length (filter (\<lambda>kv. arrayIndex (fst kv) \<noteq> None) ps)
      + length (filter (\<lambda>kv. \<not> arrayIndex (fst kv) \<noteq> None) ps) = length ps"
    by (rule sum_length_filter_compl)
  then show ?thesis
    by (simp add: ownPropertyOrder_def)
qed

lemma length_objectValues: "length (objectValues r) = length (props r)"
  by (simp add: objectValues_def length_ownPropertyOrder)




subsection \<open>Updating\<close>














subsection \<open>Where the code leaves the specification\<close>

text \<open>
  Claim C8 says that an update under an id that is not in the registry is answered 404
  \<^verbatim>\<open>participant_not_found\<close>, changes nothing and writes nothing. The registry is a plain
  object, and the read \<^verbatim>\<open>state.participants[id]\<close> also finds what the object inherits.
  Under the id \<^verbatim>\<open>constructor\<close>, which is no key of the registry, it finds the function
  \<^verbatim>\<open>Object\<close>: the update is answered 200, a record holding only \<^verbatim>\<open>updatedAt\<close> is
  stored under that id, and the snapshot is written.
\<close>

theorem update_inherited_key_accepted:
  "map_of (props (participants server0)) (lit ''constructor'') = None
   \<and> regGet (participants server0) (lit ''constructor'') = JFunction (lit ''Object'')
   \<and> fst (update samplePlatform (lit ''t1'') bodyConstructor server0)
       = Ok (JObj [(lit ''ok'', JBool True),
                   (lit ''participant'', JObj [(lit ''updatedAt'', JStr (lit ''t1''))]),
                   (lit ''participants'',
                      JArr [JObj rowP, JObj [(lit ''updatedAt'', JStr (lit ''t1''))]])])
   \<and> props (participants (snd (update samplePlatform (lit ''t1'') bodyConstructor server0)))
       = [(lit ''p7'', rowP), (lit ''constructor'', [(lit ''updatedAt'', JStr (lit ''t1''))])]
   \<and> writes (snd (update samplePlatform (lit ''t1'') bodyConstructor server0))
       = Suc (writes server0)"
  by code_simp

text \<open>
  Claim C5 says that the six counters of every record in the registry are finite and not
  negative, also after loading any scoreboard file. \<^verbatim>\<open>normalizeStatsPatch\<close> clamps a
  counter with \<^verbatim>\<open>Math.max(0, ...)\<close>; \<^verbatim>\<open>loadState\<close> applies \<^verbatim>\<open>safeNum\<close> alone, and a
  negative count in the file is loaded as it is.
\<close>

theorem loadState_keeps_negative_counter:
  "props (loadState samplePlatform (lit ''t1'') negativeFile emptyRegistry)
     = [(lit ''p1'', negativeRow)]
   \<and> getField negativeRow (lit ''totalMistakes'') = JNum (Num (- 5))"
  by code_simp

text \<open>
  Claim C4 says that persisting the ranked snapshot and recovering from it gives back the
  persisted ranked list. \<^verbatim>\<open>cleanName\<close> trims before it cuts to 28 code units, so a
  stored name can end in white space; recovery cleans the stored name again and stores
  another name. Here a join stores a name of 27 letters and a space, the snapshot holds
  that name, and the registry recovered from the snapshot lists the record under the 27
  letters.
\<close>

theorem reload_changes_truncated_name:
  "fst (join samplePlatform (lit ''t1'') (lit ''id-1'') longNameBody freshServer)
     = Ok (JObj [(lit ''id'', JStr (lit ''id-1'')),
        (lit ''participant'',
           JObj (newRow (lit ''id-1'') (lit ''aaaaaaaaaaaaaaaaaaaaaaaaaaa '') (lit ''t1''))),
        (lit ''participants'',
           JArr [JObj (newRow (lit ''id-1'') (lit ''aaaaaaaaaaaaaaaaaaaaaaaaaaa '') (lit ''t1''))])])
   \<and> dataFile joinedServer
     = Json (snapshot (lit ''t1'')
         [newRow (lit ''id-1'') (lit ''aaaaaaaaaaaaaaaaaaaaaaaaaaa '') (lit ''t1'')])
   \<and> participantsList samplePlatform
        (loadState samplePlatform (lit ''t2'') (dataFile joinedServer) emptyRegistry)
     = Some [newRow (lit ''id-1'') (lit ''aaaaaaaaaaaaaaaaaaaaaaaaaaa'') (lit ''t1'')]
   \<and> newRow (lit ''id-1'') (lit ''aaaaaaaaaaaaaaaaaaaaaaaaaaa'') (lit ''t1'')
     \<noteq> newRow (lit ''id-1'') (lit ''aaaaaaaaaaaaaaaaaaaaaaaaaaa '') (lit ''t1'')"
  by code_simp

subsection \<open>The order of the ranking\<close>

lemma ranksAbove_iff:
  assumes "rankable a" and "rankable b"
  shows "\<exists>ra rb ma mb na nb.
      roundsOf rt a = Some (Num ra) \<and> roundsOf rt b = Some (Num rb)
    \<and> mistakesOf rt a = Some (Num ma) \<and> mistakesOf rt b = Some (Num mb)
    \<and> nameOf rt a = Some na \<and> nameOf rt b = Some nb
    \<and> ranksAbove rt a b
        = (rb < ra \<or> ra = rb \<and> (ma < mb \<or> ma = mb \<and> collationKey rt na < collationKey rt nb))
    \<and> (scoreSort rt a b = Some (Num 0))
        = (ra = rb \<and> ma = mb \<and> collationKey rt na = collationKey rt nb)"
proof -
  obtain ra rb ma mb na nb where v:
    "roundsOf rt a = Some (Num ra)" "roundsOf rt b = Some (Num rb)"
    "mistakesOf rt a = Some (Num ma)" "mistakesOf rt b = Some (Num mb)"
    "nameOf rt a = Some na" "nameOf rt b = Some nb"
    "scoreSort rt a b =
        Some (if rb \<noteq> ra then Num (rb - ra) else if ma \<noteq> mb then Num (ma - mb)
              else localeCompare rt na nb)"
    using scoreSort_value [OF assms, of rt] by blast
  have 1: "ranksAbove rt a b
        = (rb < ra \<or> ra = rb \<and> (ma < mb \<or> ma = mb \<and> collationKey rt na < collationKey rt nb))"
    by (auto simp: ranksAbove_def v(7) localeCompare_def)
  have 2: "(scoreSort rt a b = Some (Num 0))
        = (ra = rb \<and> ma = mb \<and> collationKey rt na = collationKey rt nb)"
    by (auto simp: v(7) localeCompare_def)
  from v(1-6) 1 2 show ?thesis by blast
qed

lemma scoreSort_antisym:
  assumes "rankable a" and "rankable b" and "scoreSort rt a b = Some d" and "jsPositive d"
  shows "\<exists>e. scoreSort rt b a = Some e \<and> \<not> jsPositive e"
proof -
  obtain ra rb ma mb na nb where v:
    "roundsOf rt a = Some (Num ra)" "roundsOf rt b = Some (Num rb)"
    "mistakesOf rt a = Some (Num ma)" "mistakesOf rt b = Some (Num mb)"
    "nameOf rt a = Some na" "nameOf rt b = Some nb"
    "scoreSort rt a b =
        Some (if rb \<noteq> ra then Num (rb - ra) else if ma \<noteq> mb then Num (ma - mb)
              else localeCompare rt na nb)"
    using scoreSort_value [OF assms(1,2), of rt] by blast
  obtain ra' rb' ma' mb' na' nb' where w:
    "roundsOf rt b = Some (Num ra')" "roundsOf rt a = Some (Num rb')"
    "mistakesOf rt b = Some (Num ma')" "mistakesOf rt a = Some (Num mb')"
    "nameOf rt b = Some na'" "nameOf rt a = Some nb'"
    "scoreSort rt b a =
        Some (if rb' \<noteq> ra' then Num (rb' - ra') else if ma' \<noteq> mb' then Num (ma' - mb')
              else localeCompare rt na' nb')"
    using scoreSort_value [OF assms(2,1), of rt] by blast
  have eq: "ra' = rb" "rb' = ra" "ma' = mb" "mb' = ma" "na' = nb" "nb' = na"
    using v(1-6) w(1-6) by simp_all
  have d: "d = (if rb \<noteq> ra then Num (rb - ra) else if ma \<noteq> mb then Num (ma - mb)
              else localeCompare rt na nb)"
    using assms(3) v(7) by simp
  show ?thesis
    using assms(4) unfolding w(7) eq d
    by (auto simp: localeCompare_def split: if_splits)
qed

lemma inOrder_tail: "inOrder cmp (x # xs) \<Longrightarrow> inOrder cmp xs"
  by (cases xs) auto

lemma arraySort_inOrder_id: "inOrder cmp xs \<Longrightarrow> arraySort cmp xs = Some xs"
proof (induction xs)
  case Nil
  then show ?case by simp
next
  case (Cons x xs)
  have s: "arraySort cmp xs = Some xs"
    using Cons.IH inOrder_tail [OF Cons.prems] by simp
  show ?case
  proof (cases xs)
    case Nil
    then show ?thesis by simp
  next
    case (Cons y ys)
    with Cons.prems s show ?thesis
      by (auto split: option.splits)
  qed
qed

lemma insertSorted_inOrder:
  assumes "\<And>v. v \<in> set ys \<Longrightarrow> \<exists>d. cmp x v = Some d"
    and "\<And>v d. v \<in> set ys \<Longrightarrow> cmp x v = Some d \<Longrightarrow> jsPositive d
            \<Longrightarrow> \<exists>e. cmp v x = Some e \<and> \<not> jsPositive e"
    and "inOrder cmp ys"
  shows "\<exists>zs. insertSorted cmp x ys = Some zs \<and> inOrder cmp zs \<and> set zs = insert x (set ys)
            \<and> (hd zs = x \<or> (ys \<noteq> [] \<and> hd zs = hd ys))"
  using assms
proof (induction ys)
  case Nil
  then show ?case by simp
next
  case (Cons y ys)
  obtain d where d: "cmp x y = Some d"
    using Cons.prems(1) by auto
  show ?case
  proof (cases "jsPositive d")
    case False
    then show ?thesis
      using d Cons.prems(3) by simp
  next
    case True
    obtain e where e: "cmp y x = Some e" "\<not> jsPositive e"
      using Cons.prems(2) [OF _ d True] by auto
    have "\<exists>zs. insertSorted cmp x ys = Some zs \<and> inOrder cmp zs \<and> set zs = insert x (set ys)
            \<and> (hd zs = x \<or> (ys \<noteq> [] \<and> hd zs = hd ys))"
    proof (rule Cons.IH)
      show "\<exists>d. cmp x v = Some d" if "v \<in> set ys" for v
        using that Cons.prems(1) by simp
      show "\<exists>e. cmp v x = Some e \<and> \<not> jsPositive e"
        if "v \<in> set ys" "cmp x v = Some d" "jsPositive d" for v d
        using that Cons.prems(2) by simp
      show "inOrder cmp ys"
        by (rule inOrder_tail [OF Cons.prems(3)])
    qed
    then obtain zs where zs: "insertSorted cmp x ys = Some zs" "inOrder cmp zs"
       "set zs = insert x (set ys)" "hd zs = x \<or> (ys \<noteq> [] \<and> hd zs = hd ys)"
      by blast
    have ne: "zs \<noteq> []"
      using zs(3) by auto
    then obtain z zs' where z: "zs = z # zs'"
      by (cases zs) auto
    have "inOrder cmp (y # zs)"
    proof (cases "hd zs = x")
      case True
      then show ?thesis
        using z zs(2) e by simp
    next
      case False
      then have h: "ys \<noteq> []" "hd zs = hd ys"
        using zs(4) by auto
      then obtain y' ys' where y': "ys = y' # ys'"
        by (cases ys) auto
      then show ?thesis
        using z zs(2) h Cons.prems(3) by simp
    qed
    then show ?thesis
      using d True zs by auto
  qed
qed

lemma arraySort_inOrder:
  assumes "\<And>u v. u \<in> set xs \<Longrightarrow> v \<in> set xs \<Longrightarrow> \<exists>d. cmp u v = Some d"
    and "\<And>u v d. u \<in> set xs \<Longrightarrow> v \<in> set xs \<Longrightarrow> cmp u v = Some d \<Longrightarrow> jsPositive d
            \<Longrightarrow> \<exists>e. cmp v u = Some e \<and> \<not> jsPositive e"
  shows "\<exists>zs. arraySort cmp xs = Some zs \<and> inOrder cmp zs \<and> set zs = set xs"
  using assms
proof (induction xs)
  case Nil
  then show ?case by simp
next
  case (Cons x xs)
  have "\<exists>zs. arraySort cmp xs = Some zs \<and> inOrder cmp zs \<and> set zs = set xs"
  proof (rule Cons.IH)
    show "\<exists>d. cmp u v = Some d" if "u \<in> set xs" "v \<in> set xs" for u v
      using that Cons.prems(1) by simp
    show "\<exists>e. cmp v u = Some e \<and> \<not> jsPositive e"
      if "u \<in> set xs" "v \<in> set xs" "cmp u v = Some d" "jsPositive d" for u v d
      using that Cons.prems(2) [of u v d] by simp
  qed
  then obtain ys where ys: "arraySort cmp xs = Some ys" "inOrder cmp ys" "set ys = set xs"
    by blast
  have "\<exists>zs. insertSorted cmp x ys = Some zs \<and> inOrder cmp zs \<and> set zs = insert x (set ys)
            \<and> (hd zs = x \<or> (ys \<noteq> [] \<and> hd zs = hd ys))"
  proof (rule insertSorted_inOrder)
    show "\<exists>d. cmp x v = Some d" if "v \<in> set ys" for v
      using that ys(3) Cons.prems(1) by simp
    show "\<exists>e. cmp v x = Some e \<and> \<not> jsPositive e"
      if "v \<in> set ys" "cmp x v = Some d" "jsPositive d" for v d
      using that ys(3) Cons.prems(2) [of x v d] by simp
    show "inOrder cmp ys"
      by (rule ys(2))
  qed
  then show ?case
    using ys by auto
qed

lemma participants_sorted:
  assumes "list_all rankable xs"
  shows "\<exists>ys. arraySort (scoreSort rt) xs = Some ys \<and> inOrder (scoreSort rt) ys \<and> set ys = set xs"
proof (rule arraySort_inOrder)
  show "\<exists>d. scoreSort rt u v = Some d" if "u \<in> set xs" "v \<in> set xs" for u v
    using that assms by (simp add: list_all_iff scoreSort_rankable)
  show "\<exists>e. scoreSort rt v u = Some e \<and> \<not> jsPositive e"
    if "u \<in> set xs" "v \<in> set xs" "scoreSort rt u v = Some d" "jsPositive d" for u v d
    using that assms scoreSort_antisym [of u v rt d] by (simp add: list_all_iff)
qed

text \<open>
  Claim C3 says that of two distinct records exactly one ranks above the other, also when
  names and numbers are the same. The comparator has no key beyond the name: two records
  of two joins under one name tie, and neither ranks above the other.
\<close>

theorem tie_of_distinct_records:
  "getField danaOne (lit ''id'') \<noteq> getField danaTwo (lit ''id'')
   \<and> rankable danaOne \<and> rankable danaTwo
   \<and> scoreSort samplePlatform danaOne danaTwo = Some (Num 0)
   \<and> scoreSort samplePlatform danaTwo danaOne = Some (Num 0)
   \<and> \<not> ranksAbove samplePlatform danaOne danaTwo
   \<and> \<not> ranksAbove samplePlatform danaTwo danaOne"
  by code_simp


text \<open>
  Claim C3 as the code has it. On participant records the comparator is a total preorder
  by the key (rounds descending, mistakes ascending, collation key of the name
  ascending): two records never rank above each other both ways, one of them ranks above
  the other exactly when their keys differ, records of equal keys compare as 0, and
  ranking above is transitive. Sorting a list that is in order returns it unchanged, and
  sorting any list of records gives a list in order, which sorting again returns
  unchanged.
\<close>

theorem scoreSort_total_preorder:
  assumes "rankable a" and "rankable b" and "rankable c" and "list_all rankable xs"
  shows "\<not> (ranksAbove rt a b \<and> ranksAbove rt b a)
     \<and> (ranksAbove rt a b \<or> ranksAbove rt b a) = (rankKey rt a \<noteq> rankKey rt b)
     \<and> (scoreSort rt a b = Some (Num 0)) = (rankKey rt a = rankKey rt b)
     \<and> (ranksAbove rt a b \<and> ranksAbove rt b c \<longrightarrow> ranksAbove rt a c)
     \<and> (inOrder (scoreSort rt) xs \<longrightarrow> arraySort (scoreSort rt) xs = Some xs)
     \<and> (\<exists>ys. arraySort (scoreSort rt) xs = Some ys \<and> inOrder (scoreSort rt) ys
            \<and> arraySort (scoreSort rt) ys = Some ys)"
proof -
  obtain ra rb ma mb na nb where ab:
    "roundsOf rt a = Some (Num ra)" "roundsOf rt b = Some (Num rb)"
    "mistakesOf rt a = Some (Num ma)" "mistakesOf rt b = Some (Num mb)"
    "nameOf rt a = Some na" "nameOf rt b = Some nb"
    "ranksAbove rt a b
        = (rb < ra \<or> ra = rb \<and> (ma < mb \<or> ma = mb \<and> collationKey rt na < collationKey rt nb))"
    "(scoreSort rt a b = Some (Num 0))
        = (ra = rb \<and> ma = mb \<and> collationKey rt na = collationKey rt nb)"
    using ranksAbove_iff [OF assms(1,2), of rt] by blast
  obtain rb' ra' mb' ma' nb' na' where ba:
    "roundsOf rt b = Some (Num rb')" "roundsOf rt a = Some (Num ra')"
    "mistakesOf rt b = Some (Num mb')" "mistakesOf rt a = Some (Num ma')"
    "nameOf rt b = Some nb'" "nameOf rt a = Some na'"
    "ranksAbove rt b a
        = (ra' < rb' \<or> rb' = ra' \<and> (mb' < ma' \<or> mb' = ma' \<and> collationKey rt nb' < collationKey rt na'))"
    using ranksAbove_iff [OF assms(2,1), of rt] by blast
  obtain rb'' rc mb'' mc nb'' nc where bc:
    "roundsOf rt b = Some (Num rb'')" "roundsOf rt c = Some (Num rc)"
    "mistakesOf rt b = Some (Num mb'')" "mistakesOf rt c = Some (Num mc)"
    "nameOf rt b = Some nb''" "nameOf rt c = Some nc"
    "ranksAbove rt b c
        = (rc < rb'' \<or> rb'' = rc \<and> (mb'' < mc \<or> mb'' = mc \<and> collationKey rt nb'' < collationKey rt nc))"
    using ranksAbove_iff [OF assms(2,3), of rt] by blast
  obtain ra'' rc' ma'' mc' na'' nc' where ac:
    "roundsOf rt a = Some (Num ra'')" "roundsOf rt c = Some (Num rc')"
    "mistakesOf rt a = Some (Num ma'')" "mistakesOf rt c = Some (Num mc')"
    "nameOf rt a = Some na''" "nameOf rt c = Some nc'"
    "ranksAbove rt a c
        = (rc' < ra'' \<or> ra'' = rc' \<and> (ma'' < mc' \<or> ma'' = mc' \<and> collationKey rt na'' < collationKey rt nc'))"
    using ranksAbove_iff [OF assms(1,3), of rt] by blast
  have eq: "ra' = ra" "rb' = rb" "ma' = ma" "mb' = mb" "na' = na" "nb' = nb"
    "rb'' = rb" "mb'' = mb" "nb'' = nb" "ra'' = ra" "ma'' = ma" "na'' = na"
    "rc' = rc" "mc' = mc" "nc' = nc"
    using ab(1-6) ba(1-6) bc(1-6) ac(1-6) by simp_all
  have k: "(rankKey rt a = rankKey rt b)
     = (ra = rb \<and> ma = mb \<and> collationKey rt na = collationKey rt nb)"
    by (simp add: rankKey_def ab(1-6))
  have 1: "\<not> (ranksAbove rt a b \<and> ranksAbove rt b a)"
    unfolding ab(7) ba(7) eq by auto
  have 2: "(ranksAbove rt a b \<or> ranksAbove rt b a) = (rankKey rt a \<noteq> rankKey rt b)"
    unfolding ab(7) ba(7) eq k by auto
  have 3: "(scoreSort rt a b = Some (Num 0)) = (rankKey rt a = rankKey rt b)"
    unfolding ab(8) k by simp
  have 4: "ranksAbove rt a b \<and> ranksAbove rt b c \<longrightarrow> ranksAbove rt a c"
    unfolding ab(7) bc(7) ac(7) eq by auto
  have 5: "inOrder (scoreSort rt) xs \<longrightarrow> arraySort (scoreSort rt) xs = Some xs"
    by (simp add: arraySort_inOrder_id)
  obtain ys where ys: "arraySort (scoreSort rt) xs = Some ys" "inOrder (scoreSort rt) ys"
    using participants_sorted [OF assms(4), of rt] by blast
  have 6: "\<exists>ys. arraySort (scoreSort rt) xs = Some ys \<and> inOrder (scoreSort rt) ys
            \<and> arraySort (scoreSort rt) ys = Some ys"
    using ys arraySort_inOrder_id [OF ys(2)] by simp
  from 1 2 3 4 5 6 show ?thesis by simp
qed

theorem scoreSort_total_preorder_witness:
  "rankable rowB \<and> rankable rowA \<and> rankable danaOne \<and> list_all rankable [rowB, rowA]
   \<and> ranksAbove samplePlatform rowB rowA \<and> \<not> ranksAbove samplePlatform rowA rowB
   \<and> rankKey samplePlatform rowB \<noteq> rankKey samplePlatform rowA
   \<and> ranksAbove samplePlatform rowA danaOne \<and> ranksAbove samplePlatform rowB danaOne
   \<and> inOrder (scoreSort samplePlatform) [rowB, rowA]
   \<and> arraySort (scoreSort samplePlatform) [rowB, rowA] = Some [rowB, rowA]"
proof -
  have h: "rankable rowB" "rankable rowA" "rankable danaOne" "list_all rankable [rowB, rowA]"
    by code_simp+
  have e: "ranksAbove samplePlatform rowB rowA" "ranksAbove samplePlatform rowA danaOne"
    "inOrder (scoreSort samplePlatform) [rowB, rowA]"
    by code_simp+
  note t = scoreSort_total_preorder [OF h, of samplePlatform]
  note t1 = conjunct1 [OF t]
  note t2 = conjunct1 [OF conjunct2 [OF t]]
  note t4 = conjunct1 [OF conjunct2 [OF conjunct2 [OF conjunct2 [OF t]]]]
  note t5 = conjunct1 [OF conjunct2 [OF conjunct2 [OF conjunct2 [OF conjunct2 [OF t]]]]]
  have 1: "\<not> ranksAbove samplePlatform rowA rowB"
    using t1 e(1) by simp
  have 2: "rankKey samplePlatform rowB \<noteq> rankKey samplePlatform rowA"
    using t2 e(1) by simp
  have 4: "ranksAbove samplePlatform rowB danaOne"
    using t4 e(1,2) by simp
  have 5: "arraySort (scoreSort samplePlatform) [rowB, rowA] = Some [rowB, rowA]"
    using t5 e(3) by simp
  from h e 1 2 4 5 show ?thesis by (intro conjI)
qed

subsection \<open>What a join stores\<close>


lemma newRow_counters: "list_all (\<lambda>k. getField (newRow newId name now) k = JNum (Num 0)) counterKeys"
  by (simp add: counterKeys_def newRow_def getField_def lit_def)

lemma regSet_plain_key:
  assumes "k \<noteq> pk" and "pk = lit ''__proto__''"
  shows "regSet r k p = r\<lparr>props := AList.update k p (props r)\<rparr>"
  using assms by (simp add: regSet_def)

lemma persistState_participants: "participants (snd (persistState rt now s)) = participants s"
  by (simp add: persistState_def split: option.splits)

lemma join_snd:
  assumes "\<not> nullish body"
    and "cleanName rt (getProp body (lit ''name'')) = Some name" "name \<noteq> []"
  shows "snd (join rt now newId body s)
     = snd (persistState rt now
              (s\<lparr>participants := regSet (participants s) newId (newRow newId name now)\<rparr>))"
  using assms by (simp add: join_def Let_def split: prod.splits bool.splits option.splits)

lemma length_update_key:
  "length (AList.update k v ps) = (if map_of ps k = None then Suc (length ps) else length ps)"
  by (induction ps) (auto split: if_splits)

text \<open>
  What a join stores. \<open>newId\<close> stands for whatever \<^verbatim>\<open>createId()\<close> has returned; no id
  that it generates is \<^verbatim>\<open>__proto__\<close>. A join under a name that is not empty after
  cleaning stores, under that id, a record with the id, the cleaned name and all six
  counters 0, whether persisting succeeds afterwards or throws. The registry is one
  record larger exactly when the id was no key of it; otherwise the record under the id is
  replaced. That the id is new is not checked by the handler: it rests on the random
  generator behind \<^verbatim>\<open>createId()\<close>.
\<close>

theorem join_stores_record:
  assumes body: "\<not> nullish body"
    and name: "cleanName rt (getProp body (lit ''name'')) = Some name" "name \<noteq> []"
    and key: "newId \<noteq> lit ''__proto__''"
  shows "participants (snd (join rt now newId body s))
           = (participants s)
               \<lparr>props := AList.update newId (newRow newId name now) (props (participants s))\<rparr>
     \<and> regGet (participants (snd (join rt now newId body s))) newId
           = JObj (newRow newId name now)
     \<and> length (objectValues (participants (snd (join rt now newId body s))))
           = (if map_of (props (participants s)) newId = None
              then Suc (length (objectValues (participants s)))
              else length (objectValues (participants s)))
     \<and> getField (newRow newId name now) (lit ''id'') = JStr newId
     \<and> getField (newRow newId name now) (lit ''name'') = JStr name
     \<and> list_all (\<lambda>k. getField (newRow newId name now) k = JNum (Num 0)) counterKeys"
proof -
  let ?row = "newRow newId name now"
  let ?r = "(participants s)\<lparr>props := AList.update newId ?row (props (participants s))\<rparr>"
  have rs: "regSet (participants s) newId ?row = ?r"
    by (rule regSet_plain_key [OF key refl])
  have p: "participants (snd (join rt now newId body s)) = ?r"
    unfolding join_snd [OF body name] persistState_participants by (simp add: rs)
  have g: "regGet ?r newId = JObj ?row"
    by (simp add: regGet_def update_conv')
  have l: "length (objectValues ?r)
           = (if map_of (props (participants s)) newId = None
              then Suc (length (objectValues (participants s)))
              else length (objectValues (participants s)))"
    by (simp add: length_objectValues length_update_key)
  have f: "getField ?row (lit ''id'') = JStr newId" "getField ?row (lit ''name'') = JStr name"
    by (simp_all add: newRow_def getField_def lit_def)
  from p g l f newRow_counters show ?thesis
    unfolding p by (intro conjI)
qed

theorem join_stores_record_witness:
  "\<not> nullish danaBody
   \<and> cleanName samplePlatform (getProp danaBody (lit ''name'')) = Some (lit ''Dana'')
   \<and> lit ''Dana'' \<noteq> []
   \<and> uuidOne \<noteq> lit ''__proto__''
   \<and> map_of (props (participants freshServer)) uuidOne = None
   \<and> objectValues (participants (snd (join samplePlatform (lit ''t1'') uuidOne danaBody freshServer)))
       = [newRow uuidOne (lit ''Dana'') (lit ''t1'')]
   \<and> regGet (participants (snd (join samplePlatform (lit ''t1'') uuidOne danaBody freshServer))) uuidOne
       = JObj (newRow uuidOne (lit ''Dana'') (lit ''t1''))"
proof -
  have a: "\<not> nullish danaBody" by code_simp
  have b: "cleanName samplePlatform (getProp danaBody (lit ''name'')) = Some (lit ''Dana'')"
    by code_simp
  have c: "lit ''Dana'' \<noteq> []" by code_simp
  have d: "uuidOne \<noteq> lit ''__proto__''" by code_simp
  have e: "map_of (props (participants freshServer)) uuidOne = None" by code_simp
  have o: "objectValues (participants (snd (join samplePlatform (lit ''t1'') uuidOne danaBody freshServer)))
       = [newRow uuidOne (lit ''Dana'') (lit ''t1'')]" by code_simp
  note t = join_stores_record [where now = "lit ''t1''" and s = freshServer, OF a b c d]
  have g: "regGet (participants (snd (join samplePlatform (lit ''t1'') uuidOne danaBody freshServer))) uuidOne
       = JObj (newRow uuidOne (lit ''Dana'') (lit ''t1''))"
    by (rule conjunct1 [OF conjunct2 [OF t]])
  from a b c d e o g show ?thesis by (intro conjI)
qed

subsection \<open>Recovery\<close>









text \<open>
  \<^verbatim>\<open>Object.values\<close> on a registry with the keys \<^verbatim>\<open>b\<close>, \<^verbatim>\<open>10\<close> and \<^verbatim>\<open>2\<close>, stored in that
  order: the records under \<^verbatim>\<open>2\<close> and \<^verbatim>\<open>10\<close> come first.
\<close>

lemma arrayIndex_examples:
  "arrayIndex (lit ''10'') = Some 10" "arrayIndex (lit ''2'') = Some 2"
  "arrayIndex (lit ''b'') = None"
  by (simp_all add: arrayIndex_def decimalValue_def lit_def isDigit_def)

lemma objectValues_index_keys_first:
  "objectValues \<lparr>props = [(lit ''b'', rowA), (lit ''10'', rowB), (lit ''2'', rowP)], proto = None\<rparr>
     = [rowP, rowB, rowA]"
  by (simp add: objectValues_def ownPropertyOrder_def indexOfKey_def arrayIndex_examples)




end
